theory Spec2Isabelle
  imports Complex_Main "HOL-Library.Sublist"
begin

section \<open>JavaScript strings\<close>

text \<open>
  A JavaScript string is a sequence of code units. The model uses \<open>string\<close> (a list of
  8-bit characters), read as the code units U+0000 to U+00FF; \<open>length\<close> is then the
  \<^verbatim>\<open>.length\<close> of the source and \<open>take n\<close> is \<^verbatim>\<open>.slice(0, n)\<close>.
  The empty string is the only falsy string.
\<close>

definition isWhiteSpace :: "char \<Rightarrow> bool" where
  \<comment> \<open>the white space and line terminators that \<^verbatim>\<open>String.prototype.trim\<close> strips, below U+0100\<close>
  "isWhiteSpace c =
     (c \<in> set [CHR 0x09, CHR 0x0A, CHR 0x0B, CHR 0x0C, CHR 0x0D, CHR 0x20, CHR 0xA0])"

definition trim :: "string \<Rightarrow> string" where
  "trim s = rev (dropWhile isWhiteSpace (rev (dropWhile isWhiteSpace s)))"

definition toLowerChar :: "char \<Rightarrow> char" where
  \<comment> \<open>A to Z, and the Latin-1 capitals U+00C0 to U+00DE without the multiplication sign\<close>
  "toLowerChar c =
     (let n = (of_char c :: nat)
      in if (65 \<le> n \<and> n \<le> 90) \<or> (192 \<le> n \<and> n \<le> 222 \<and> n \<noteq> 215)
         then char_of (n + 32) else c)"

definition toLowerCase :: "string \<Rightarrow> string" where
  "toLowerCase s = map toLowerChar s"

definition includes_str :: "string \<Rightarrow> string \<Rightarrow> bool" where
  \<comment> \<open>\<^verbatim>\<open>s.includes(t)\<close>: \<open>t\<close> occurs in \<open>s\<close> as a contiguous run\<close>
  "includes_str s t = sublist t s"

definition endsWith :: "string \<Rightarrow> string \<Rightarrow> bool" where
  "endsWith s t = suffix t s"

definition newline :: char where
  "newline = CHR 0x0A"

definition backtick :: char where
  "backtick = CHR 0x60"

definition fence :: string where
  \<comment> \<open>the code-fence marker: three backticks\<close>
  "fence = [backtick, backtick, backtick]"

fun stripOptNewline :: "string \<Rightarrow> string" where
  \<comment> \<open>the \<^verbatim>\<open>\n?\<close> at the end of both regular expressions\<close>
  "stripOptNewline [] = []"
| "stripOptNewline (c # cs) = (if c = newline then cs else c # cs)"

function removeAll :: "string \<Rightarrow> string \<Rightarrow> string" where
  \<comment> \<open>\<^verbatim>\<open>s.replace(/pat\n?/g, '')\<close> for a literal \<open>pat\<close>: the matches are taken from the
      left, each match is cut out, and the scan goes on behind it\<close>
  "removeAll pat [] = []"
| "removeAll pat (c # cs) =
     (if pat \<noteq> [] \<and> prefix pat (c # cs)
      then removeAll pat (stripOptNewline (drop (length pat) (c # cs)))
      else c # removeAll pat cs)"
  by pat_completeness auto
termination
proof (relation "measure (\<lambda>(pat, s). length s)")
  show "wf (measure (\<lambda>(pat, s). length s))" by simp
next
  fix pat :: string and c :: char and cs :: string
  assume "pat \<noteq> [] \<and> prefix pat (c # cs)"
  then have "length (drop (length pat) (c # cs)) < length (c # cs)"
    by (cases pat) auto
  moreover have "length (stripOptNewline (drop (length pat) (c # cs)))
                   \<le> length (drop (length pat) (c # cs))"
    by (cases "drop (length pat) (c # cs)") auto
  ultimately
  show "((pat, stripOptNewline (drop (length pat) (c # cs))), (pat, c # cs))
          \<in> measure (\<lambda>(pat, s). length s)"
    by simp
next
  fix pat :: string and c :: char and cs :: string
  show "((pat, cs), (pat, c # cs)) \<in> measure (\<lambda>(pat, s). length s)" by simp
qed

definition joinLines :: "string list \<Rightarrow> string" where
  \<comment> \<open>a template literal that spans several source lines\<close>
  "joinLines ls = concat (case ls of [] \<Rightarrow> [] | l # rest \<Rightarrow> l # map ((#) newline) rest)"


section \<open>The Diagram Record and the effects of a handler\<close>

text \<open>
  The record the three producing views write with \<^verbatim>\<open>blink.db.diagrams.create\<close> and the
  history view reads back. The fields are those of the source with the prefix \<open>d_\<close>;
  a field that only some views set is an option.
\<close>

record diagram =
  d_id :: string
  d_userId :: string
  d_title :: string
  d_type :: string
  d_prompt :: "string option"
  d_diagramCode :: string
  d_sourceFile :: "string option"
  d_extractedText :: "string option"
  d_sourceData :: "string option"
  d_createdAt :: string

datatype jserror =
  Error string  \<comment> \<open>an \<^verbatim>\<open>Error\<close> object with its message\<close>
| Thrown        \<comment> \<open>any other thrown value\<close>

datatype toast = Toast string string bool
  \<comment> \<open>title, description, and whether the variant is "destructive"\<close>

text \<open>
  What a handler does besides changing the state of its component: the toasts it shows,
  the calls it makes to the hosted client, and the records the store accepted.
\<close>

datatype extcall =
  AuthMe
| GenerateText
| DbCreate diagram
| DbDelete string
| StorageUpload string
| ExtractFromUrl string

record effects =
  toasts :: "toast list"
  calls :: "extcall list"
  persisted :: "diagram list"

definition noEffects :: effects where
  "noEffects = \<lparr>toasts = [], calls = [], persisted = []\<rparr>"


section \<open>DiagramViewer: zoom\<close>








section \<open>DiagramHistory: filter and delete\<close>

record dh_state =
  dh_diagrams :: "diagram list"
  dh_filteredDiagrams :: "diagram list"
  dh_isLoading :: bool
  dh_searchTerm :: string
  dh_filterType :: string
  dh_selectedDiagram :: "diagram option"

definition matchesSearch :: "string \<Rightarrow> diagram \<Rightarrow> bool" where
  \<comment> \<open>the callback of the first \<^verbatim>\<open>filter\<close>; \<^verbatim>\<open>diagram.prompt?.\<close> is falsy without a prompt\<close>
  "matchesSearch searchTerm d =
     (includes_str (toLowerCase (d_title d)) (toLowerCase searchTerm) \<or>
      (case d_prompt d of
         None \<Rightarrow> False
       | Some p \<Rightarrow> includes_str (toLowerCase p) (toLowerCase searchTerm)))"

definition filtered :: "diagram list \<Rightarrow> string \<Rightarrow> string \<Rightarrow> diagram list" where
  \<comment> \<open>the local variable \<^verbatim>\<open>filtered\<close> of \<^verbatim>\<open>filterDiagrams\<close> at its end\<close>
  "filtered ds searchTerm filterType =
     (let f1 = (if searchTerm \<noteq> [] then filter (matchesSearch searchTerm) ds else ds);
          f2 = (if filterType \<noteq> ''all'' then filter (\<lambda>d. d_type d = filterType) f1 else f1)
      in f2)"

definition filterDiagrams :: "dh_state \<Rightarrow> dh_state" where
  "filterDiagrams st =
     st\<lparr>dh_filteredDiagrams :=
          filtered (dh_diagrams st) (dh_searchTerm st) (dh_filterType st)\<rparr>"

definition handleDeleteDiagram ::
  "bool \<Rightarrow> (string \<Rightarrow> jserror option) \<Rightarrow> string \<Rightarrow> dh_state \<Rightarrow> dh_state \<times> effects" where
  \<comment> \<open>\<open>confirmed\<close> is the answer of \<^verbatim>\<open>confirm(...)\<close>; \<open>dbDelete\<close> is the store's delete, which
      returns the error it throws\<close>
  "handleDeleteDiagram confirmed dbDelete diagramId st =
     (if \<not> confirmed then (st, noEffects)
      else case dbDelete diagramId of
        None \<Rightarrow>
          (st\<lparr>dh_diagrams := filter (\<lambda>d. d_id d \<noteq> diagramId) (dh_diagrams st),
              dh_selectedDiagram :=
                (case dh_selectedDiagram st of
                   None \<Rightarrow> None
                 | Some s \<Rightarrow> if d_id s = diagramId then None else Some s)\<rparr>,
           \<lparr>toasts = [Toast ''Diagram deleted''
                         ''The diagram has been removed from your history'' False],
            calls = [DbDelete diagramId], persisted = []\<rparr>)
      | Some e \<Rightarrow>
          (st,
           \<lparr>toasts = [Toast ''Failed to delete diagram'' ''Please try again'' True],
            calls = [DbDelete diagramId], persisted = []\<rparr>))"


section \<open>DiagramViewer: rendering\<close>

text \<open>
  What \<^verbatim>\<open>renderDiagram\<close> writes into \<^verbatim>\<open>containerRef.current.innerHTML\<close>: nothing, the
  svg of \<^verbatim>\<open>mermaid.render\<close> (with the scale set on its svg element, when it has one), the
  "showing fallback" block (the fallback's svg and the original code), or the
  "Rendering Error" block with the raw code.
\<close>

datatype view =
  Cleared
| Rendered string "real option"
| FallbackRendered string string
| ErrorDisplayed string

record dv_state =
  dv_isLoading :: bool
  dv_error :: "string option"
  dv_zoom :: real
  dv_container :: "view option"  \<comment> \<open>\<^verbatim>\<open>containerRef.current\<close>; \<open>None\<close> is the null ref\<close>

text \<open>
  The rendering library and the clock are collaborators. \<open>render\<close> returns the svg or the
  error it throws; \<open>initialize\<close> returns the error it throws, if any. The two awaits
  give the component time to unmount: \<open>refAfterRender\<close> and \<open>refAfterFallback\<close> say
  whether the ref is still set when the render and the fallback render settle.
\<close>

record mermaid =
  initialize :: "jserror option"
  render :: "string \<Rightarrow> string \<Rightarrow> jserror + string"
  hasSvgElement :: "string \<Rightarrow> bool"
  renderNow :: string
  fallbackNow :: string
  refAfterRender :: bool
  refAfterFallback :: bool

definition tryCatch ::
  "('s \<Rightarrow> jserror option \<times> 's) \<Rightarrow> (jserror \<Rightarrow> 's \<Rightarrow> jserror option \<times> 's)
     \<Rightarrow> 's \<Rightarrow> jserror option \<times> 's" where
  \<comment> \<open>a block returns the error it throws (if any) and the state it leaves\<close>
  "tryCatch body handler s =
     (case body s of (None, s') \<Rightarrow> (None, s') | (Some e, s') \<Rightarrow> handler e s')"

definition tryFinally ::
  "('s \<Rightarrow> jserror option \<times> 's) \<Rightarrow> ('s \<Rightarrow> 's) \<Rightarrow> 's \<Rightarrow> jserror option \<times> 's" where
  "tryFinally body fin s = (case body s of (r, s') \<Rightarrow> (r, fin s'))"

definition setInnerHTML :: "view \<Rightarrow> dv_state \<Rightarrow> dv_state" where
  \<comment> \<open>\<^verbatim>\<open>if (containerRef.current) { containerRef.current.innerHTML = ... }\<close>\<close>
  "setInnerHTML v st =
     (case dv_container st of None \<Rightarrow> st | Some old \<Rightarrow> st\<lparr>dv_container := Some v\<rparr>)"

definition afterAwait :: "bool \<Rightarrow> dv_state \<Rightarrow> dv_state" where
  "afterAwait refSet st = (if refSet then st else st\<lparr>dv_container := None\<rparr>)"

definition fallbackCode :: string where
  "fallbackCode = joinLines
     [''flowchart TD'',
      ''    A[Diagram Rendering Failed] --> B[Raw Code Below]'',
      ''    B --> C[Please Check Syntax]'']"

definition errorMessage :: "jserror \<Rightarrow> string" where
  \<comment> \<open>\<^verbatim>\<open>err instanceof Error ? err.message : 'Unknown error'\<close>\<close>
  "errorMessage err = (case err of Error msg \<Rightarrow> msg | Thrown \<Rightarrow> ''Unknown error'')"

definition renderBlock :: "mermaid \<Rightarrow> string \<Rightarrow> dv_state \<Rightarrow> jserror option \<times> dv_state" where
  \<comment> \<open>the outer \<^verbatim>\<open>try\<close> block\<close>
  "renderBlock m diagramCode st =
     (case initialize m of
        Some e \<Rightarrow> (Some e, st)
      | None \<Rightarrow>
          (let st1 = setInnerHTML Cleared st
           in (case render m (''diagram-'' @ renderNow m) diagramCode of
                 Inl e \<Rightarrow> (Some e, st1)
               | Inr svg \<Rightarrow>
                   (None,
                    setInnerHTML
                      (Rendered svg (if hasSvgElement m svg then Some (dv_zoom st) else None))
                      (afterAwait (refAfterRender m) st1)))))"

definition fallbackBlock :: "mermaid \<Rightarrow> string \<Rightarrow> dv_state \<Rightarrow> jserror option \<times> dv_state" where
  \<comment> \<open>the inner \<^verbatim>\<open>try\<close> block\<close>
  "fallbackBlock m diagramCode st =
     (case render m (''fallback-'' @ fallbackNow m) fallbackCode of
        Inl e \<Rightarrow> (Some e, afterAwait (refAfterFallback m) st)
      | Inr fallbackSvg \<Rightarrow>
          (None,
           setInnerHTML (FallbackRendered fallbackSvg diagramCode)
             (afterAwait (refAfterFallback m) st)))"

definition rawCodeBlock :: "string \<Rightarrow> jserror \<Rightarrow> dv_state \<Rightarrow> jserror option \<times> dv_state" where
  \<comment> \<open>the inner \<^verbatim>\<open>catch (fallbackErr)\<close> block\<close>
  "rawCodeBlock diagramCode fallbackErr st = (None, setInnerHTML (ErrorDisplayed diagramCode) st)"

definition catchBlock ::
  "mermaid \<Rightarrow> string \<Rightarrow> jserror \<Rightarrow> dv_state \<Rightarrow> jserror option \<times> dv_state" where
  \<comment> \<open>the outer \<^verbatim>\<open>catch (err)\<close> block\<close>
  "catchBlock m diagramCode err st =
     tryCatch (fallbackBlock m diagramCode) (rawCodeBlock diagramCode)
       (st\<lparr>dv_error := Some (''Failed to render diagram: '' @ errorMessage err)\<rparr>)"

definition renderDiagram :: "mermaid \<Rightarrow> string \<Rightarrow> dv_state \<Rightarrow> jserror option \<times> dv_state" where
  \<comment> \<open>the first component is the error that leaves \<^verbatim>\<open>renderDiagram\<close>, if any\<close>
  "renderDiagram m diagramCode st =
     tryFinally
       (tryCatch (renderBlock m diagramCode) (catchBlock m diagramCode))
       (\<lambda>s. s\<lparr>dv_isLoading := False\<rparr>)
       (st\<lparr>dv_isLoading := True, dv_error := None\<rparr>)"

definition renderEffect :: "mermaid \<Rightarrow> string \<Rightarrow> dv_state \<Rightarrow> jserror option \<times> dv_state" where
  \<comment> \<open>the effect on \<^verbatim>\<open>[diagramCode, zoom]\<close>, with its guard\<close>
  "renderEffect m diagramCode st =
     (if diagramCode = [] \<or> dv_container st = None then (None, st)
      else renderDiagram m diagramCode st)"


text \<open>
  What the component returns decides whether the ref is set: the spinner while
  \<^verbatim>\<open>isLoading\<close>, the error text when \<^verbatim>\<open>error\<close> is truthy, and only otherwise the div
  that carries \<^verbatim>\<open>containerRef\<close>. \<open>commit\<close> is the ref after React has rendered a state;
  a div that was not there before starts empty. The component starts from
  \<^verbatim>\<open>useState(true)\<close>, \<^verbatim>\<open>useState(null)\<close>, \<^verbatim>\<open>useState(1)\<close> and \<^verbatim>\<open>useRef(null)\<close>. The zoom
  buttons are not there while the spinner is shown.
\<close>

definition refMounted :: "dv_state \<Rightarrow> bool" where
  "refMounted st = (\<not> dv_isLoading st \<and> (dv_error st = None \<or> dv_error st = Some []))"

definition commit :: "dv_state \<Rightarrow> dv_state" where
  "commit st =
     (if refMounted st
      then (case dv_container st of None \<Rightarrow> st\<lparr>dv_container := Some Cleared\<rparr> | Some v \<Rightarrow> st)
      else st\<lparr>dv_container := None\<rparr>)"

definition initialViewer :: dv_state where
  "initialViewer =
     \<lparr>dv_isLoading = True, dv_error = None, dv_zoom = 1, dv_container = None\<rparr>"

definition effectRun :: "dv_state \<Rightarrow> mermaid \<times> string \<Rightarrow> dv_state" where
  \<comment> \<open>the component rendered with a description, then its effect; the renderer's
      answers may differ from run to run\<close>
  "effectRun st run = snd (renderEffect (fst run) (snd run) (commit st))"

definition viewerAfter :: "(mermaid \<times> string) list \<Rightarrow> dv_state" where
  \<comment> \<open>the viewer after it was mounted and given the descriptions one after the other\<close>
  "viewerAfter runs = foldl effectRun initialViewer runs"


section \<open>The hosted client\<close>

text \<open>
  The calls of \<^verbatim>\<open>blink\<close> that the producing views make. Each field is the outcome of the
  call: a value, or the error the call throws. The instruction text sent to
  \<^verbatim>\<open>blink.ai.generateText\<close> is not modelled; the answer of the service is arbitrary.
  The answer is a string, as the client's type says; in the prompt view an answer
  without one would throw inside the same \<^verbatim>\<open>try\<close> block and counts as an error.
  \<open>date_now\<close> is \<^verbatim>\<open>Date.now()\<close> in decimal, \<open>date_iso\<close> is
  \<^verbatim>\<open>new Date().toISOString()\<close>.
\<close>

record jsfile =
  file_name :: string
  file_size :: nat

record blink =
  auth_me :: "jserror + string"  \<comment> \<open>\<^verbatim>\<open>user.id\<close>\<close>
  ai_generateText :: "jserror + string"
  db_create :: "diagram \<Rightarrow> jserror option"
  storage_upload :: "jsfile \<Rightarrow> string \<Rightarrow> jserror + string"
  data_extractFromUrl :: "string \<Rightarrow> jserror + string"
  date_now :: string
  date_iso :: string


section \<open>TextPromptGenerator\<close>

record tp_state =
  tp_prompt :: string
  tp_diagramType :: string
  tp_isGenerating :: bool
  tp_generatedDiagram :: "diagram option"

definition DIAGRAM_TYPES :: "string list" where
  \<comment> \<open>the values the type select offers\<close>
  "DIAGRAM_TYPES =
     [''flowchart'', ''mindmap'', ''sequence'', ''class'', ''gantt'', ''pie'', ''bar'', ''network'']"

definition dq :: char where
  "dq = CHR 0x22"

definition fallbackDiagrams :: "string \<Rightarrow> (string \<times> string) list" where
  "fallbackDiagrams prompt =
     [(''flowchart'', joinLines
         [''flowchart TD'',
          ''    A['' @ [dq] @ take 30 prompt @ [dq] @ ''] --> B{Analysis}'',
          ''    B -->|Step 1| C[Process]'',
          ''    B -->|Step 2| D[Alternative]'',
          ''    C --> E[Result]'',
          ''    D --> E'',
          ''    E --> F[End]'']),
      (''mindmap'', joinLines
         [''mindmap'',
          ''  root(('' @ [dq] @ take 20 prompt @ [dq] @ ''))'',
          ''    Key Concept 1'',
          ''      Detail A'',
          ''      Detail B'',
          ''    Key Concept 2'',
          ''      Detail C'',
          ''      Detail D'',
          ''    Key Concept 3'',
          ''      Detail E'',
          ''      Detail F'']),
      (''sequence'', joinLines
         [''sequenceDiagram'',
          ''    participant User'',
          ''    participant System'',
          ''    User->>System: Request'',
          ''    System-->>User: Processing'',
          ''    System->>System: Internal Process'',
          ''    System-->>User: Response'']),
      (''class'', joinLines
         [''classDiagram'',
          ''    class MainConcept {'',
          ''        +property1 : string'',
          ''        +property2 : number'',
          ''        +method1() : void'',
          ''    }'',
          ''    class RelatedConcept {'',
          ''        +relatedProp : string'',
          ''        +relatedMethod() : string'',
          ''    }'',
          ''    MainConcept --> RelatedConcept'']),
      (''gantt'', joinLines
         [''gantt'',
          ''    title '' @ take 30 prompt,
          ''    dateFormat  YYYY-MM-DD'',
          ''    section Phase 1'',
          ''    Planning           :a1, 2024-01-01, 30d'',
          ''    Research           :after a1, 20d'',
          ''    section Phase 2'',
          ''    Development        :2024-02-01, 25d'',
          ''    Testing            :20d''])]"

definition genericFallback :: "string \<Rightarrow> string" where
  "genericFallback prompt = joinLines
     [''flowchart TD'',
      ''    A['' @ [dq] @ prompt @ [dq] @ ''] --> B[Generated Diagram]'',
      ''    B --> C[Success]'']"

definition fallbackFor :: "string \<Rightarrow> string \<Rightarrow> string" where
  \<comment> \<open>\<^verbatim>\<open>fallbackDiagrams[diagramType] || `flowchart TD...`\<close>, for the own keys of the table\<close>
  "fallbackFor diagramType prompt =
     (case map_of (fallbackDiagrams prompt) diagramType of
        Some code \<Rightarrow> if code \<noteq> [] then code else genericFallback prompt
      | None \<Rightarrow> genericFallback prompt)"

definition kindHeader :: "string \<Rightarrow> string" where
  \<comment> \<open>the first line of the skeleton that \<open>fallbackFor\<close> gives for a type\<close>
  "kindHeader diagramType =
     (if diagramType = ''mindmap'' then ''mindmap''
      else if diagramType = ''sequence'' then ''sequenceDiagram''
      else if diagramType = ''class'' then ''classDiagram''
      else if diagramType = ''gantt'' then ''gantt''
      else ''flowchart TD'')"

definition cleanUp :: "string \<Rightarrow> string" where
  \<comment> \<open>\<^verbatim>\<open>.replace(/```mermaid\n?/g, '').replace(/```\n?/g, '').trim()\<close>\<close>
  "cleanUp diagramCode = trim (removeAll fence (removeAll (fence @ ''mermaid'') diagramCode))"

definition failed :: "string \<Rightarrow> string \<Rightarrow> extcall list \<Rightarrow> effects" where
  \<comment> \<open>a \<^verbatim>\<open>catch\<close> block that only reports: one destructive toast, nothing stored\<close>
  "failed title description cs =
     \<lparr>toasts = [Toast title description True], calls = cs, persisted = []\<rparr>"

definition handleGenerate :: "blink \<Rightarrow> tp_state \<Rightarrow> tp_state \<times> effects" where
  "handleGenerate b st =
     (if trim (tp_prompt st) = [] then
        (st, failed ''Please enter a prompt'' ''Describe what you'd like to visualize'' [])
      else if tp_diagramType st = [] then
        (st, failed ''Please select a diagram type''
               ''Choose the type of diagram you want to create'' [])
      else
        case auth_me b of
          Inl e \<Rightarrow>
            (st\<lparr>tp_isGenerating := False\<rparr>,
             failed ''Generation failed'' ''Please try again with a different prompt'' [AuthMe])
        | Inr userId \<Rightarrow>
           (let diagramCode =
                  (case ai_generateText b of
                     Inr text \<Rightarrow> trim text
                   | Inl aiError \<Rightarrow> fallbackFor (tp_diagramType st) (tp_prompt st));
                diagramData =
                  \<lparr>d_id = ''diagram_'' @ date_now b,
                   d_userId = userId,
                   d_title = take 100 (tp_prompt st),
                   d_type = tp_diagramType st,
                   d_prompt = Some (tp_prompt st),
                   d_diagramCode = cleanUp diagramCode,
                   d_sourceFile = None,
                   d_extractedText = None,
                   d_sourceData = None,
                   d_createdAt = date_iso b\<rparr>
            in (case db_create b diagramData of
                  Some e \<Rightarrow>
                    (st\<lparr>tp_isGenerating := False\<rparr>,
                     failed ''Generation failed'' ''Please try again with a different prompt''
                       [AuthMe, GenerateText, DbCreate diagramData])
                | None \<Rightarrow>
                    (st\<lparr>tp_isGenerating := False, tp_generatedDiagram := Some diagramData\<rparr>,
                     \<lparr>toasts = [Toast ''Diagram generated successfully!''
                                   ''Your diagram is ready for viewing and editing'' False],
                      calls = [AuthMe, GenerateText, DbCreate diagramData],
                      persisted = [diagramData]\<rparr>))))"


section \<open>DatasetUploader\<close>

text \<open>
  A parsed row is an object from column names to strings; a missing property reads as
  \<^verbatim>\<open>undefined\<close>, here \<open>None\<close>. A number is \<^verbatim>\<open>NaN\<close>, an infinity, or a finite value, kept
  exact (the rounding to double and the overflow of large exponents are not modelled).
\<close>

type_synonym row = "string \<Rightarrow> string option"

datatype jsnum = NaN | Fin rat | PosInfinity | NegInfinity

definition isDigit :: "char \<Rightarrow> bool" where
  "isDigit c = (c \<in> set ''0123456789'')"

definition decimalValue :: "string \<Rightarrow> nat" where
  "decimalValue ds = foldl (\<lambda>n c. 10 * n + (of_char c - 48)) 0 ds"

definition exponentPart :: "string \<Rightarrow> int" where
  \<comment> \<open>the value of an exponent part at the head of the text, 0 where there is none\<close>
  "exponentPart r =
     (case r of
        [] \<Rightarrow> 0
      | c # r1 \<Rightarrow>
          if c = CHR ''e'' \<or> c = CHR ''E'' then
            (case r1 of
               [] \<Rightarrow> 0
             | s # r2 \<Rightarrow>
                 if s = CHR ''-'' then - int (decimalValue (takeWhile isDigit r2))
                 else if s = CHR ''+'' then int (decimalValue (takeWhile isDigit r2))
                 else int (decimalValue (takeWhile isDigit r1)))
          else 0)"

definition scale10 :: "rat \<Rightarrow> int \<Rightarrow> rat" where
  "scale10 q e = (if 0 \<le> e then q * 10 ^ nat e else q / 10 ^ nat (- e))"

definition parseFloat :: "string \<Rightarrow> jsnum" where
  \<comment> \<open>the built-in: leading white space, a sign, then \<^verbatim>\<open>Infinity\<close> or the longest decimal
      literal; \<^verbatim>\<open>NaN\<close> when no digit was read\<close>
  "parseFloat s =
     (let t = dropWhile isWhiteSpace s;
          neg = (t \<noteq> [] \<and> hd t = CHR ''-'');
          u = (if t \<noteq> [] \<and> (hd t = CHR ''-'' \<or> hd t = CHR ''+'') then tl t else t);
          ip = takeWhile isDigit u;
          r1 = dropWhile isDigit u;
          hasDot = (r1 \<noteq> [] \<and> hd r1 = CHR ''.'');
          fp = (if hasDot then takeWhile isDigit (tl r1) else []);
          r2 = (if hasDot then dropWhile isDigit (tl r1) else r1);
          v = scale10 (of_nat (decimalValue (ip @ fp))) (exponentPart r2 - int (length fp))
      in if prefix ''Infinity'' u then (if neg then NegInfinity else PosInfinity)
         else if ip = [] \<and> fp = [] then NaN
         else Fin (if neg then - v else v))"

definition toStringProp :: "string option \<Rightarrow> string" where
  \<comment> \<open>the string \<^verbatim>\<open>parseFloat\<close> makes of its argument\<close>
  "toStringProp v = (case v of None \<Rightarrow> ''undefined'' | Some s \<Rightarrow> s)"

definition orZero :: "jsnum \<Rightarrow> jsnum" where
  \<comment> \<open>\<^verbatim>\<open>v || 0\<close>: \<^verbatim>\<open>NaN\<close> and zero are the falsy numbers\<close>
  "orZero v = (if v = NaN \<or> v = Fin 0 then Fin 0 else v)"

definition isNaN :: "jsnum \<Rightarrow> bool" where
  "isNaN v = (v = NaN)"

record selectedColumns =
  sel_x :: string
  sel_y :: string
  sel_label :: string

record chartPoint =
  cp_x :: "string option"
  cp_y :: jsnum
  cp_label :: "string option"

definition chartData :: "row list \<Rightarrow> selectedColumns \<Rightarrow> chartPoint list" where
  \<comment> \<open>\<^verbatim>\<open>parsedData.map(row => ({...})).filter(item => !isNaN(item.y))\<close>\<close>
  "chartData parsedData cols =
     filter (\<lambda>item. \<not> isNaN (cp_y item))
       (map (\<lambda>row.
               \<lparr>cp_x = row (sel_x cols),
                cp_y = orZero (parseFloat (toStringProp (row (sel_y cols)))),
                cp_label = (if sel_label cols \<noteq> [] then row (sel_label cols)
                            else row (sel_x cols))\<rparr>)
          parsedData)"

record ds_state =
  ds_file :: "jsfile option"
  ds_chartType :: string
  ds_isProcessing :: bool
  ds_parsedData :: "row list"
  ds_columns :: "string list"
  ds_selectedColumns :: selectedColumns
  ds_generatedChart :: "diagram option"

definition fileNameOf :: "jsfile option \<Rightarrow> string" where
  \<comment> \<open>\<^verbatim>\<open>${file?.name}\<close>\<close>
  "fileNameOf f = (case f of None \<Rightarrow> ''undefined'' | Some file \<Rightarrow> file_name file)"

definition handleGenerateChart ::
  "blink \<Rightarrow> (chartPoint list \<Rightarrow> string) \<Rightarrow> ds_state \<Rightarrow> ds_state \<times> effects" where
  \<comment> \<open>\<open>stringify\<close> is \<^verbatim>\<open>JSON.stringify\<close> on the chart data\<close>
  "handleGenerateChart b stringify st =
     (if ds_parsedData st = [] \<or> ds_chartType st = [] \<or> sel_x (ds_selectedColumns st) = []
          \<or> sel_y (ds_selectedColumns st) = [] then
        (st, failed ''Missing information'' ''Please select chart type and required columns'' [])
      else
        case auth_me b of
          Inl e \<Rightarrow>
            (st\<lparr>ds_isProcessing := False\<rparr>,
             failed ''Chart generation failed'' ''Please try again with different settings''
               [AuthMe])
        | Inr userId \<Rightarrow>
            (case ai_generateText b of
               Inl e \<Rightarrow>
                 (st\<lparr>ds_isProcessing := False\<rparr>,
                  failed ''Chart generation failed'' ''Please try again with different settings''
                    [AuthMe, GenerateText])
             | Inr chartCode \<Rightarrow>
                 (let chartDiagram =
                        \<lparr>d_id = ''chart_'' @ date_now b,
                         d_userId = userId,
                         d_title = ds_chartType st @ '' chart from '' @ fileNameOf (ds_file st),
                         d_type = ds_chartType st,
                         d_prompt = Some (''Chart generated from dataset: ''
                                          @ fileNameOf (ds_file st)),
                         d_diagramCode = chartCode,
                         d_sourceFile = None,
                         d_extractedText = None,
                         d_sourceData =
                           Some (stringify (chartData (ds_parsedData st) (ds_selectedColumns st))),
                         d_createdAt = date_iso b\<rparr>
                  in (case db_create b chartDiagram of
                        Some e \<Rightarrow>
                          (st\<lparr>ds_isProcessing := False\<rparr>,
                           failed ''Chart generation failed''
                             ''Please try again with different settings''
                             [AuthMe, GenerateText, DbCreate chartDiagram])
                      | None \<Rightarrow>
                          (st\<lparr>ds_isProcessing := False, ds_generatedChart := Some chartDiagram\<rparr>,
                           \<lparr>toasts = [Toast ''Chart generated successfully!''
                                         ''Your data visualization is ready'' False],
                            calls = [AuthMe, GenerateText, DbCreate chartDiagram],
                            persisted = [chartDiagram]\<rparr>)))))"


section \<open>PDFProcessor\<close>

record pdf_state =
  pdf_file :: "jsfile option"
  pdf_isProcessing :: bool
  pdf_progress :: nat
  pdf_extractedText :: string
  pdf_generatedMindMap :: "diagram option"
  pdf_processingStep :: string

definition handleFileUpload :: "jsfile option \<Rightarrow> pdf_state \<Rightarrow> pdf_state \<times> effects" where
  \<comment> \<open>the argument is \<^verbatim>\<open>event.target.files?.[0]\<close>\<close>
  "handleFileUpload uploaded st =
     (case uploaded of
        None \<Rightarrow> (st, noEffects)
      | Some uploadedFile \<Rightarrow>
          if \<not> endsWith (toLowerCase (file_name uploadedFile)) ''.pdf'' then
            (st, failed ''Invalid file type'' ''Please upload a PDF file'' [])
          else if file_size uploadedFile > 10 * 1024 * 1024 then
            (st, failed ''File too large'' ''Please upload a PDF file smaller than 10MB'' [])
          else
            (st\<lparr>pdf_file := Some uploadedFile, pdf_extractedText := [],
                pdf_generatedMindMap := None, pdf_progress := 0\<rparr>,
             noEffects))"

definition pdfFailed :: "jserror \<Rightarrow> extcall list \<Rightarrow> effects" where
  \<comment> \<open>the \<^verbatim>\<open>catch\<close> block of \<^verbatim>\<open>handleProcessPDF\<close>\<close>
  "pdfFailed err cs =
     failed ''PDF processing failed''
       (case err of Error msg \<Rightarrow> msg | Thrown \<Rightarrow> ''Please try again with a different PDF'') cs"

definition handleProcessPDF :: "blink \<Rightarrow> pdf_state \<Rightarrow> pdf_state \<times> effects" where
  \<comment> \<open>the state when the handler ends; the timer that later resets the progress display
      is not part of it\<close>
  "handleProcessPDF b st =
     (case pdf_file st of
        None \<Rightarrow> (st, noEffects)
      | Some file \<Rightarrow>
          (let st0 = st\<lparr>pdf_isProcessing := True, pdf_progress := 0,
                        pdf_processingStep := ''Uploading PDF...''\<rparr>
           in (case auth_me b of
                 Inl e \<Rightarrow> (st0\<lparr>pdf_isProcessing := False\<rparr>, pdfFailed e [AuthMe])
               | Inr userId \<Rightarrow>
                   (let st1 = st0\<lparr>pdf_progress := 20\<rparr>;
                        path = ''pdfs/'' @ file_name file
                    in (case storage_upload b file path of
                          Inl e \<Rightarrow>
                            (st1\<lparr>pdf_isProcessing := False\<rparr>,
                             pdfFailed e [AuthMe, StorageUpload path])
                        | Inr publicUrl \<Rightarrow>
                            (let st2 = st1\<lparr>pdf_processingStep := ''Extracting text from PDF...'',
                                           pdf_progress := 40\<rparr>;
                                 cs = [AuthMe, StorageUpload path, ExtractFromUrl publicUrl]
                             in (case data_extractFromUrl b publicUrl of
                                   Inl e \<Rightarrow> (st2\<lparr>pdf_isProcessing := False\<rparr>, pdfFailed e cs)
                                 | Inr extractedContent \<Rightarrow>
                                     (let st3 = st2\<lparr>pdf_extractedText := extractedContent\<rparr>
                                      in if extractedContent = []
                                            \<or> length (trim extractedContent) < 100 then
                                           (st3\<lparr>pdf_isProcessing := False\<rparr>,
                                            pdfFailed
                                              (Error ''Could not extract sufficient text from PDF'')
                                              cs)
                                         else
                                           (let st4 = st3\<lparr>pdf_processingStep :=
                                                             ''Generating mind map with AI...'',
                                                           pdf_progress := 70\<rparr>
                                            in (case ai_generateText b of
                                                  Inl e \<Rightarrow>
                                                    (st4\<lparr>pdf_isProcessing := False\<rparr>,
                                                     pdfFailed e (cs @ [GenerateText]))
                                                | Inr mindMapCode \<Rightarrow>
                                                    (let st5 = st4\<lparr>pdf_processingStep :=
                                                                      ''Saving mind map...'',
                                                                    pdf_progress := 90\<rparr>;
                                                         mindMapData =
                                                           \<lparr>d_id = ''mindmap_'' @ date_now b,
                                                            d_userId = userId,
                                                            d_title = ''Mind map from ''
                                                                      @ file_name file,
                                                            d_type = ''mindmap'',
                                                            d_prompt =
                                                              Some (''Mind map generated from PDF: ''
                                                                    @ file_name file),
                                                            d_diagramCode = mindMapCode,
                                                            d_sourceFile = Some publicUrl,
                                                            d_extractedText =
                                                              Some (take 2000 extractedContent),
                                                            d_sourceData = None,
                                                            d_createdAt = date_iso b\<rparr>;
                                                         cs' = cs @ [GenerateText,
                                                                     DbCreate mindMapData]
                                                     in (case db_create b mindMapData of
                                                           Some e \<Rightarrow>
                                                             (st5\<lparr>pdf_isProcessing := False\<rparr>,
                                                              pdfFailed e cs')
                                                         | None \<Rightarrow>
                                                             (st5\<lparr>pdf_generatedMindMap :=
                                                                    Some mindMapData,
                                                                  pdf_progress := 100,
                                                                  pdf_processingStep :=
                                                                    ''Complete!'',
                                                                  pdf_isProcessing := False\<rparr>,
                                                              \<lparr>toasts =
                                                                 [Toast
                                                                   ''PDF processed successfully!''
                                                                   ''Your mind map has been generated from the PDF content''
                                                                   False],
                                                               calls = cs',
                                                               persisted = [mindMapData]\<rparr>)))))))))))))"


section \<open>Example inputs\<close>

definition exampleFlowchart :: diagram where
  "exampleFlowchart =
     \<lparr>d_id = ''diagram_1700000000000'', d_userId = ''user_1'',
      d_title = ''Photosynthesis FLOW'', d_type = ''flowchart'',
      d_prompt = Some ''Explain photosynthesis'', d_diagramCode = ''flowchart TD'',
      d_sourceFile = None, d_extractedText = None, d_sourceData = None,
      d_createdAt = ''2023-11-14T22:13:20.000Z''\<rparr>"

definition exampleMindmap :: diagram where
  "exampleMindmap =
     \<lparr>d_id = ''mindmap_1600000000000'', d_userId = ''user_1'',
      d_title = ''Mind map from notes.pdf'', d_type = ''mindmap'',
      d_prompt = Some ''Workflow notes'', d_diagramCode = ''mindmap'',
      d_sourceFile = Some ''https://files/pdfs/notes.pdf'', d_extractedText = Some ''Notes'',
      d_sourceData = None, d_createdAt = ''2020-09-13T12:26:40.000Z''\<rparr>"

definition exampleHistory :: dh_state where
  \<comment> \<open>two loaded records, the first one selected\<close>
  "exampleHistory =
     \<lparr>dh_diagrams = [exampleFlowchart, exampleMindmap],
      dh_filteredDiagrams = [exampleFlowchart, exampleMindmap],
      dh_isLoading = False, dh_searchTerm = [], dh_filterType = ''all'',
      dh_selectedDiagram = Some exampleFlowchart\<rparr>"

definition scannedText :: string where
  "scannedText = ''Scanned page 1 of 3: no text layer could be found.''"

definition serviceDown :: blink where
  \<comment> \<open>the completion service throws; extraction yields the 50 characters above\<close>
  "serviceDown =
     \<lparr>auth_me = Inr ''user_1'',
      ai_generateText = Inl (Error ''Service unavailable''),
      db_create = (\<lambda>d. None),
      storage_upload = (\<lambda>f path. Inr (''https://files/'' @ path)),
      data_extractFromUrl = (\<lambda>url. Inr scannedText),
      date_now = ''1700000000000'',
      date_iso = ''2023-11-14T22:13:20.000Z''\<rparr>"

definition fencedAnswer :: string where
  \<comment> \<open>a chart wrapped in a code fence\<close>
  "fencedAnswer = fence @ ''mermaid'' @ [newline] @ ''pie title Sales'' @ [newline] @ fence"

definition emptyFencedAnswer :: string where
  \<comment> \<open>an empty fenced block\<close>
  "emptyFencedAnswer = fence @ ''mermaid'' @ [newline] @ fence"

definition examplePrompt :: tp_state where
  "examplePrompt =
     \<lparr>tp_prompt = ''Explain photosynthesis'', tp_diagramType = ''flowchart'',
      tp_isGenerating = False, tp_generatedDiagram = None\<rparr>"

definition blankPrompt :: tp_state where
  \<comment> \<open>a prompt of a space, a line feed and a tab\<close>
  "blankPrompt = examplePrompt\<lparr>tp_prompt := [CHR 0x20, CHR 0x0A, CHR 0x09]\<rparr>"

definition exampleRows :: "row list" where
  "exampleRows =
     [[''x'' \<mapsto> ''Jan'', ''y'' \<mapsto> ''10''], [''x'' \<mapsto> ''Feb'', ''y'' \<mapsto> ''bad'']]"

definition exampleColumns :: selectedColumns where
  "exampleColumns = \<lparr>sel_x = ''x'', sel_y = ''y'', sel_label = []\<rparr>"

definition exampleDataset :: ds_state where
  "exampleDataset =
     \<lparr>ds_file = Some \<lparr>file_name = ''sales.csv'', file_size = 24\<rparr>,
      ds_chartType = ''pie'', ds_isProcessing = False, ds_parsedData = exampleRows,
      ds_columns = [''x'', ''y''], ds_selectedColumns = exampleColumns,
      ds_generatedChart = None\<rparr>"

definition examplePdf :: pdf_state where
  "examplePdf =
     \<lparr>pdf_file = Some \<lparr>file_name = ''scan.pdf'', file_size = 204800\<rparr>,
      pdf_isProcessing = False, pdf_progress = 0, pdf_extractedText = [],
      pdf_generatedMindMap = None, pdf_processingStep = []\<rparr>"

definition stringifyStub :: "chartPoint list \<Rightarrow> string" where
  \<comment> \<open>a stand-in for \<^verbatim>\<open>JSON.stringify\<close>; no statement depends on the text it gives\<close>
  "stringifyStub ps = ''[]''"


definition acceptingMermaid :: mermaid where
  \<comment> \<open>a renderer that accepts every description\<close>
  "acceptingMermaid =
     \<lparr>initialize = None,
      render = (\<lambda>i code. Inr (''<svg id='' @ i @ ''></svg>'')),
      hasSvgElement = (\<lambda>svg. True),
      renderNow = ''1700000000000'', fallbackNow = ''1700000000001'',
      refAfterRender = True, refAfterFallback = True\<rparr>"

definition twoNodeFlowchart :: string where
  "twoNodeFlowchart = joinLines [''flowchart TD'', ''    A --> B'']"




section \<open>Zoom stays in range\<close>







section \<open>The dataset reduction\<close>

lemma parseFloat_10: "parseFloat ''10'' = Fin 10"
  by (simp add: parseFloat_def isWhiteSpace_def isDigit_def decimalValue_def
        exponentPart_def scale10_def)

lemma parseFloat_bad: "parseFloat ''bad'' = NaN"
  by (simp add: parseFloat_def isWhiteSpace_def isDigit_def decimalValue_def
        exponentPart_def scale10_def)

text \<open>
  C3. The reduction maps each row to an x, y, label tuple with y parsed by
  \<^verbatim>\<open>parseFloat\<close>, but \<^verbatim>\<open>|| 0\<close> turns a failed parse into 0 before the
  \<^verbatim>\<open>!isNaN\<close> filter sees it: on the rows Jan/10 and Feb/bad the second row is kept
  with y = 0, and on every input the reduced list is as long as the row list.
\<close>

theorem chartData_keeps_unparsable_rows:
  "chartData exampleRows exampleColumns =
     [\<lparr>cp_x = Some ''Jan'', cp_y = Fin 10, cp_label = Some ''Jan''\<rparr>,
      \<lparr>cp_x = Some ''Feb'', cp_y = Fin 0, cp_label = Some ''Feb''\<rparr>]
   \<and> length (chartData parsedData cols) = length parsedData"
proof -
  have "length (chartData parsedData cols) = length parsedData"
    by (simp add: chartData_def isNaN_def orZero_def o_def)
  then show ?thesis
    by (simp add: chartData_def exampleRows_def exampleColumns_def toStringProp_def
          orZero_def isNaN_def parseFloat_10 parseFloat_bad)
qed


section \<open>The rendering cascade\<close>

text \<open>
  No error leaves \<^verbatim>\<open>renderDiagram\<close> or the effect that calls it, and \<^verbatim>\<open>renderDiagram\<close>
  clears the loading flag.
\<close>

lemma renderDiagram_no_error:
  "fst (renderDiagram m diagramCode st) = None
   \<and> \<not> dv_isLoading (snd (renderDiagram m diagramCode st))
   \<and> fst (renderEffect m diagramCode st) = None"
  by (auto simp add: renderEffect_def renderDiagram_def tryFinally_def tryCatch_def renderBlock_def
        catchBlock_def fallbackBlock_def rawCodeBlock_def setInnerHTML_def afterAwait_def Let_def
        split: option.splits sum.splits prod.splits if_splits)

text \<open>
  On a container that is mounted and stays mounted the cascade would end with the
  rendered svg, the fallback block or the raw-code block, the last whenever both
  renders throw. No run of the component meets these hypotheses (see C4 below).
\<close>

lemma renderDiagram_cascade:
  "(dv_container st \<noteq> None \<and> refAfterRender m \<and> refAfterFallback m \<longrightarrow>
        (\<exists>svg z. dv_container (snd (renderDiagram m diagramCode st)) = Some (Rendered svg z))
        \<or> (\<exists>svg. dv_container (snd (renderDiagram m diagramCode st))
                   = Some (FallbackRendered svg diagramCode))
        \<or> dv_container (snd (renderDiagram m diagramCode st))
            = Some (ErrorDisplayed diagramCode))
   \<and> (dv_container st \<noteq> None \<and> refAfterFallback m
        \<and> (initialize m \<noteq> None \<or> (\<exists>e. render m (''diagram-'' @ renderNow m) diagramCode = Inl e))
        \<and> (\<exists>e. render m (''fallback-'' @ fallbackNow m) fallbackCode = Inl e) \<longrightarrow>
        dv_container (snd (renderDiagram m diagramCode st)) = Some (ErrorDisplayed diagramCode))"
  by (auto simp add: renderDiagram_def tryFinally_def tryCatch_def renderBlock_def
        catchBlock_def fallbackBlock_def rawCodeBlock_def setInnerHTML_def afterAwait_def Let_def
        split: option.splits sum.splits prod.splits if_splits)

lemma effectRun_initialViewer: "effectRun initialViewer run = initialViewer"
  by (simp add: effectRun_def renderEffect_def commit_def refMounted_def initialViewer_def)

lemma foldl_effectRun_initialViewer: "foldl effectRun initialViewer runs = initialViewer"
  by (induction runs) (simp_all add: effectRun_initialViewer)

text \<open>
  C4. The cascade of \<^verbatim>\<open>renderDiagram\<close> lets no error out, but the component never
  reaches it. The viewer starts loading, so it returns the spinner and the ref is null;
  the effect returns at its guard, nothing clears the loading flag, and the next
  description meets the same state. After any sequence of descriptions, accepted by
  the renderer or not, the viewer is in its initial state: still loading, with no
  rendered svg, no fallback block and no raw-code block, and without an error text.
\<close>

theorem viewer_never_leaves_loading:
  "viewerAfter [(acceptingMermaid, twoNodeFlowchart)] = initialViewer
   \<and> viewerAfter runs = initialViewer
   \<and> dv_isLoading (viewerAfter runs)
   \<and> dv_container (commit (viewerAfter runs)) = None
   \<and> dv_error (viewerAfter runs) = None
   \<and> fst (renderEffect m diagramCode (commit (viewerAfter runs))) = None"
proof -
  have a: "viewerAfter rs = initialViewer" for rs
    by (simp add: viewerAfter_def foldl_effectRun_initialViewer)
  have b: "commit initialViewer = initialViewer"
    by (simp add: commit_def refMounted_def initialViewer_def)
  have c: "fst (renderEffect m diagramCode initialViewer) = None"
    by (simp add: renderEffect_def initialViewer_def)
  show ?thesis
    unfolding a b using c by (simp add: initialViewer_def)
qed


section \<open>Filtering and deleting in the history\<close>

lemma filtered_eq:
  "filtered ds T K =
     filter (\<lambda>d. (T = [] \<or> matchesSearch T d) \<and> (K = ''all'' \<or> d_type d = K)) ds"
  by (simp add: filtered_def)

text \<open>
  C6. Filtering by the term and then by the kind gives the same list as filtering by
  the kind and then by the term, and both are what one pass with both inputs gives;
  filtering is idempotent; \<^verbatim>\<open>filterDiagrams\<close> leaves the loaded set as it was and computes
  the filtered list from the loaded set alone, whatever the filtered list was before.
\<close>

theorem filter_order_independent:
  "filtered (filtered ds T ''all'') [] K = filtered (filtered ds [] K) T ''all''
   \<and> filtered (filtered ds T ''all'') [] K = filtered ds T K
   \<and> filtered (filtered ds T K) T K = filtered ds T K
   \<and> dh_diagrams (filterDiagrams st) = dh_diagrams st
   \<and> dh_filteredDiagrams (filterDiagrams st)
       = filtered (dh_diagrams st) (dh_searchTerm st) (dh_filterType st)
   \<and> filterDiagrams (st\<lparr>dh_filteredDiagrams := old\<rparr>) = filterDiagrams st"
proof -
  have a: "filtered (filtered ds T ''all'') [] K = filtered ds T K"
    by (simp add: filtered_def)
  have b: "filtered (filtered ds [] K) T ''all'' = filtered ds T K"
    by (auto simp add: filtered_eq intro: filter_cong)
  have c: "filtered (filtered ds T K) T K = filtered ds T K"
    by (auto simp add: filtered_eq intro: filter_cong)
  show ?thesis using a b c by (simp add: filterDiagrams_def)
qed

theorem filter_order_independent_witness:
  "filtered (filtered [exampleFlowchart, exampleMindmap] ''flow'' ''all'') [] ''mindmap''
     = [exampleMindmap]
   \<and> filtered (filtered [exampleFlowchart, exampleMindmap] [] ''mindmap'') ''flow'' ''all''
     = [exampleMindmap]"
proof -
  have v: "filtered [exampleFlowchart, exampleMindmap] ''flow'' ''mindmap'' = [exampleMindmap]"
    by code_simp
  note t = filter_order_independent
             [of "[exampleFlowchart, exampleMindmap]" "''flow''" "''mindmap''" exampleHistory "[]"]
  have e1: "filtered (filtered [exampleFlowchart, exampleMindmap] ''flow'' ''all'') [] ''mindmap''
            = filtered (filtered [exampleFlowchart, exampleMindmap] [] ''mindmap'') ''flow'' ''all''"
    by (rule t [THEN conjunct1])
  have e2: "filtered (filtered [exampleFlowchart, exampleMindmap] ''flow'' ''all'') [] ''mindmap''
            = filtered [exampleFlowchart, exampleMindmap] ''flow'' ''mindmap''"
    by (rule t [THEN conjunct2, THEN conjunct1])
  show ?thesis
    unfolding e1 [symmetric] e2 v by simp
qed

lemma filter_other_ids:
  fixes d :: diagram
  assumes "distinct (map d_id ds)" "d \<in> set ds"
  shows "filter (\<lambda>x. d_id x \<noteq> d_id d) ds = remove1 d ds"
  using assms
proof (induction ds)
  case Nil
  then show ?case by simp
next
  case (Cons a ds)
  show ?case
  proof (cases "a = d")
    case True
    with Cons.prems have "d_id d \<notin> d_id ` set ds" by simp
    then have "\<forall>x \<in> set ds. d_id x \<noteq> d_id d"
      by (metis imageI)
    then have "filter (\<lambda>x. d_id x \<noteq> d_id d) ds = ds" by (simp add: filter_id_conv)
    with True show ?thesis by simp
  next
    case False
    with Cons.prems have "d \<in> set ds" "d_id a \<noteq> d_id d" by auto
    with Cons.IH Cons.prems False show ?thesis by simp
  qed
qed

text \<open>
  C7. After a confirmed delete that the store accepts, the loaded set is the old one
  without the records of that identifier (with distinct identifiers: without exactly
  the one record that has it), in the old order. The selection is cleared when the
  selected record has that identifier and is kept as it was otherwise.
\<close>

theorem delete_removes_record:
  assumes "dbDelete diagramId = None"
  shows "dh_diagrams (fst (handleDeleteDiagram True dbDelete diagramId st))
           = filter (\<lambda>d. d_id d \<noteq> diagramId) (dh_diagrams st)
   \<and> set (dh_diagrams (fst (handleDeleteDiagram True dbDelete diagramId st)))
           = {d \<in> set (dh_diagrams st). d_id d \<noteq> diagramId}
   \<and> (\<forall>d. distinct (map d_id (dh_diagrams st)) \<and> d \<in> set (dh_diagrams st) \<and> d_id d = diagramId
         \<longrightarrow> dh_diagrams (fst (handleDeleteDiagram True dbDelete diagramId st))
               = remove1 d (dh_diagrams st))
   \<and> (\<forall>s. dh_selectedDiagram st = Some s \<and> d_id s = diagramId
         \<longrightarrow> dh_selectedDiagram (fst (handleDeleteDiagram True dbDelete diagramId st)) = None)
   \<and> (\<forall>s. dh_selectedDiagram st = Some s \<and> d_id s \<noteq> diagramId
         \<longrightarrow> dh_selectedDiagram (fst (handleDeleteDiagram True dbDelete diagramId st)) = Some s)
   \<and> (dh_selectedDiagram st = None
         \<longrightarrow> dh_selectedDiagram (fst (handleDeleteDiagram True dbDelete diagramId st)) = None)"
  using assms by (auto simp add: handleDeleteDiagram_def filter_other_ids)

theorem delete_removes_record_witness:
  "dh_diagrams (fst (handleDeleteDiagram True (\<lambda>i. None) ''diagram_1700000000000'' exampleHistory))
     = [exampleMindmap]
   \<and> dh_selectedDiagram
       (fst (handleDeleteDiagram True (\<lambda>i. None) ''diagram_1700000000000'' exampleHistory)) = None
   \<and> dh_selectedDiagram
       (fst (handleDeleteDiagram True (\<lambda>i. None) ''mindmap_1600000000000'' exampleHistory))
       = Some exampleFlowchart"
proof -
  have s: "dh_selectedDiagram exampleHistory = Some exampleFlowchart"
    "dh_diagrams exampleHistory = [exampleFlowchart, exampleMindmap]"
    by (simp_all add: exampleHistory_def)
  have i: "d_id exampleFlowchart = ''diagram_1700000000000''"
    "d_id exampleMindmap = ''mindmap_1600000000000''"
    by (simp_all add: exampleFlowchart_def exampleMindmap_def)
  from delete_removes_record [of "\<lambda>i. None" "''diagram_1700000000000''" exampleHistory]
    delete_removes_record [of "\<lambda>i. None" "''mindmap_1600000000000''" exampleHistory] s i
  show ?thesis by simp
qed


section \<open>Validation before any call\<close>

text \<open>
  C8. When the prompt is empty or only white space, or no diagram type is selected,
  \<^verbatim>\<open>handleGenerate\<close> shows one destructive toast and does nothing else: no call to the
  hosted client (auth, completion, store), no record stored, the state as it was.
\<close>

theorem generate_refused_before_any_call:
  assumes "trim (tp_prompt st) = [] \<or> tp_diagramType st = []"
  shows "fst (handleGenerate b st) = st
     \<and> calls (snd (handleGenerate b st)) = []
     \<and> persisted (snd (handleGenerate b st)) = []
     \<and> toasts (snd (handleGenerate b st)) =
         [if trim (tp_prompt st) = []
          then Toast ''Please enter a prompt'' ''Describe what you'd like to visualize'' True
          else Toast ''Please select a diagram type''
                 ''Choose the type of diagram you want to create'' True]"
  using assms by (auto simp add: handleGenerate_def failed_def)

theorem generate_refused_before_any_call_witness:
  "trim (tp_prompt blankPrompt) = []
   \<and> fst (handleGenerate serviceDown blankPrompt) = blankPrompt
   \<and> calls (snd (handleGenerate serviceDown blankPrompt)) = []
   \<and> persisted (snd (handleGenerate serviceDown blankPrompt)) = []"
proof -
  have h: "trim (tp_prompt blankPrompt) = []"
    by (simp add: blankPrompt_def trim_def isWhiteSpace_def)
  then have "trim (tp_prompt blankPrompt) = [] \<or> tp_diagramType blankPrompt = []" ..
  from generate_refused_before_any_call [OF this, of serviceDown] h
  show ?thesis by simp
qed

text \<open>
  C9. In \<^verbatim>\<open>handleProcessPDF\<close>, once the sign-in check, the upload and the extraction have
  succeeded: an extracted text whose trimmed length is below 100 ends in the
  "Could not extract sufficient text from PDF" failure before the completion service
  is called, with no record created or stored; a trimmed length of 100 or more goes on
  to the completion call.
\<close>

theorem pdf_rejected_below_100_chars:
  assumes "pdf_file st = Some file"
    and "auth_me b = Inr userId"
    and "storage_upload b file (''pdfs/'' @ file_name file) = Inr publicUrl"
    and "data_extractFromUrl b publicUrl = Inr extractedContent"
  shows "(length (trim extractedContent) < 100 \<longrightarrow>
            toasts (snd (handleProcessPDF b st)) =
              [Toast ''PDF processing failed''
                 ''Could not extract sufficient text from PDF'' True]
          \<and> GenerateText \<notin> set (calls (snd (handleProcessPDF b st)))
          \<and> (\<forall>d. DbCreate d \<notin> set (calls (snd (handleProcessPDF b st))))
          \<and> persisted (snd (handleProcessPDF b st)) = []
          \<and> pdf_generatedMindMap (fst (handleProcessPDF b st)) = pdf_generatedMindMap st
          \<and> \<not> pdf_isProcessing (fst (handleProcessPDF b st)))
       \<and> (100 \<le> length (trim extractedContent) \<longrightarrow>
            GenerateText \<in> set (calls (snd (handleProcessPDF b st))))"
proof -
  have e: "extractedContent = [] \<Longrightarrow> length (trim extractedContent) < 100"
    by (simp add: trim_def)
  show ?thesis
    using assms e
    by (auto simp add: handleProcessPDF_def pdfFailed_def failed_def Let_def
             split: sum.splits option.splits)
qed

theorem pdf_rejected_below_100_chars_witness:
  "length (trim scannedText) = 50
   \<and> toasts (snd (handleProcessPDF serviceDown examplePdf)) =
       [Toast ''PDF processing failed'' ''Could not extract sufficient text from PDF'' True]
   \<and> GenerateText \<notin> set (calls (snd (handleProcessPDF serviceDown examplePdf)))
   \<and> persisted (snd (handleProcessPDF serviceDown examplePdf)) = []"
proof -
  have f: "pdf_file examplePdf = Some \<lparr>file_name = ''scan.pdf'', file_size = 204800\<rparr>"
    by (simp add: examplePdf_def)
  have a: "auth_me serviceDown = Inr ''user_1''"
    by (simp add: serviceDown_def)
  have u: "storage_upload serviceDown \<lparr>file_name = ''scan.pdf'', file_size = 204800\<rparr>
             (''pdfs/'' @ file_name \<lparr>file_name = ''scan.pdf'', file_size = 204800\<rparr>)
           = Inr ''https://files/pdfs/scan.pdf''"
    by (simp add: serviceDown_def)
  have x: "data_extractFromUrl serviceDown ''https://files/pdfs/scan.pdf'' = Inr scannedText"
    by (simp add: serviceDown_def)
  have l: "length (trim scannedText) = 50"
    by (simp add: scannedText_def trim_def isWhiteSpace_def)
  from pdf_rejected_below_100_chars [OF f a u x] l
  show ?thesis by simp
qed

text \<open>
  C10. In the PDF view's \<^verbatim>\<open>handleFileUpload\<close>, a file whose lower-cased name does not end
  in ".pdf" or whose size exceeds 10485760 bytes is rejected with one destructive
  toast: the handler makes no call to the hosted client, and the selected file, the
  extracted text and the generated mind map stay as they were. Any other file becomes
  the selected file.
\<close>

theorem pdf_selection_rejected:
  "(\<not> endsWith (toLowerCase (file_name f)) ''.pdf'' \<or> file_size f > 10485760 \<longrightarrow>
      fst (handleFileUpload (Some f) st) = st
      \<and> calls (snd (handleFileUpload (Some f) st)) = []
      \<and> persisted (snd (handleFileUpload (Some f) st)) = []
      \<and> (\<exists>title description.
            toasts (snd (handleFileUpload (Some f) st)) = [Toast title description True]))
   \<and> (endsWith (toLowerCase (file_name f)) ''.pdf'' \<and> file_size f \<le> 10485760 \<longrightarrow>
      pdf_file (fst (handleFileUpload (Some f) st)) = Some f
      \<and> toasts (snd (handleFileUpload (Some f) st)) = [])"
  by (auto simp add: handleFileUpload_def failed_def noEffects_def)

theorem pdf_selection_rejected_witness:
  "fst (handleFileUpload (Some \<lparr>file_name = ''Report.PDF'', file_size = 10485761\<rparr>) examplePdf)
     = examplePdf
   \<and> fst (handleFileUpload (Some \<lparr>file_name = ''notes.pdf.txt'', file_size = 120\<rparr>) examplePdf)
     = examplePdf
   \<and> pdf_file (fst (handleFileUpload (Some \<lparr>file_name = ''Report.PDF'', file_size = 10485760\<rparr>)
                      examplePdf))
     = Some \<lparr>file_name = ''Report.PDF'', file_size = 10485760\<rparr>"
proof -
  have a: "endsWith (toLowerCase ''Report.PDF'') ''.pdf''"
    by code_simp
  have b: "\<not> endsWith (toLowerCase ''notes.pdf.txt'') ''.pdf''"
    by code_simp
  from pdf_selection_rejected [of "\<lparr>file_name = ''Report.PDF'', file_size = 10485761\<rparr>" examplePdf]
    pdf_selection_rejected [of "\<lparr>file_name = ''notes.pdf.txt'', file_size = 120\<rparr>" examplePdf]
    pdf_selection_rejected [of "\<lparr>file_name = ''Report.PDF'', file_size = 10485760\<rparr>" examplePdf]
    a b
  show ?thesis by simp
qed


section \<open>The clean-up of a description\<close>

lemma removeAll_keeps_short_run:
  assumes "\<not> prefix [backtick, backtick] s"
  shows "\<not> prefix [backtick, backtick] (removeAll fence s)"
proof (cases s)
  case Nil
  then show ?thesis by simp
next
  case (Cons c cs)
  show ?thesis
  proof (cases "c = backtick")
    case False
    with Cons show ?thesis by (simp add: fence_def)
  next
    case True
    show ?thesis
    proof (cases cs)
      case Nil
      with Cons True show ?thesis by (simp add: fence_def)
    next
      case (Cons d ds)
      with assms \<open>s = c # cs\<close> True have "d \<noteq> backtick" by simp
      with Cons \<open>s = c # cs\<close> True show ?thesis by (simp add: fence_def)
    qed
  qed
qed

lemma removeAll_fence_free: "\<not> sublist fence (removeAll fence s)"
proof (induction fence s rule: removeAll.induct)
  case 1
  then show ?case by (simp add: fence_def)
next
  case (2 c cs)
  show ?case
  proof (cases "prefix fence (c # cs)")
    case True
    with 2 show ?thesis by (simp add: fence_def)
  next
    case False
    with 2 have ih: "\<not> sublist fence (removeAll fence cs)" by simp
    have "\<not> prefix fence (c # removeAll fence cs)"
    proof (cases "c = backtick")
      case True
      with False have "\<not> prefix [backtick, backtick] cs" by (simp add: fence_def)
      then have "\<not> prefix [backtick, backtick] (removeAll fence cs)"
        by (rule removeAll_keeps_short_run)
      with True show ?thesis by (simp add: fence_def)
    next
      case False
      then show ?thesis by (simp add: fence_def)
    qed
    with ih False show ?thesis by (simp add: sublist_Cons_right)
  qed
qed

lemma sublist_trim: "sublist (trim s) s"
proof -
  have "sublist (rev (dropWhile isWhiteSpace (rev (dropWhile isWhiteSpace s))))
          (dropWhile isWhiteSpace s)"
    by (metis sublist_dropWhile sublist_rev_left)
  then show ?thesis
    unfolding trim_def using sublist_dropWhile sublist_order.order_trans by blast
qed

lemma cleanUp_fence_free: "\<not> includes_str (cleanUp code) fence"
proof
  assume "includes_str (cleanUp code) fence"
  then have "sublist fence (trim (removeAll fence (removeAll (fence @ ''mermaid'') code)))"
    by (simp add: includes_str_def cleanUp_def)
  with sublist_trim have "sublist fence (removeAll fence (removeAll (fence @ ''mermaid'') code))"
    using sublist_order.order_trans by blast
  with removeAll_fence_free show False by blast
qed

lemma removeAll_append_plain:
  assumes "backtick \<notin> set p"
  shows "removeAll (backtick # pat) (p @ s) = p @ removeAll (backtick # pat) s"
  using assms by (induction p) auto

lemma trim_keeps_head:
  assumes "p \<noteq> []" "\<not> isWhiteSpace (hd p)" "\<not> isWhiteSpace (last p)"
  shows "prefix p (trim (p @ s))"
proof -
  from assms(1,2) have a: "dropWhile isWhiteSpace (p @ s) = p @ s"
    by (cases p) auto
  from assms(1,3) have b: "dropWhile isWhiteSpace (rev p) = rev p"
    by (cases p rule: rev_cases) auto
  have "prefix p (rev (dropWhile isWhiteSpace (rev s @ rev p)))"
  proof (cases "\<forall>x \<in> set (rev s). isWhiteSpace x")
    case True
    then have "dropWhile isWhiteSpace (rev s @ rev p) = dropWhile isWhiteSpace (rev p)"
      by (intro dropWhile_append2) simp
    with b have "dropWhile isWhiteSpace (rev s @ rev p) = rev p"
      by simp
    then show ?thesis by simp
  next
    case False
    then obtain x where "x \<in> set (rev s)" "\<not> isWhiteSpace x" by blast
    then have "dropWhile isWhiteSpace (rev s @ rev p)
                 = dropWhile isWhiteSpace (rev s) @ rev p"
      by (rule dropWhile_append1)
    then show ?thesis by simp
  qed
  then show ?thesis
    unfolding trim_def a by simp
qed

lemma cleanUp_keeps_head:
  assumes "p \<noteq> []" "backtick \<notin> set p" "\<not> isWhiteSpace (hd p)" "\<not> isWhiteSpace (last p)"
  shows "prefix p (cleanUp (p @ s))"
proof -
  have "removeAll fence (removeAll (fence @ ''mermaid'') (p @ s))
          = p @ removeAll fence (removeAll (fence @ ''mermaid'') s)"
    using assms(2) by (simp add: fence_def removeAll_append_plain)
  with trim_keeps_head [OF assms(1,3,4)] show ?thesis
    by (simp add: cleanUp_def)
qed


section \<open>What the producing views store\<close>

lemma fallbackFor_head:
  "\<exists>rest. fallbackFor diagramType prompt = kindHeader diagramType @ rest"
  by (simp add: fallbackFor_def fallbackDiagrams_def genericFallback_def joinLines_def
        kindHeader_def)

lemma cleanUp_fallback_head:
  "prefix (kindHeader diagramType) (cleanUp (fallbackFor diagramType prompt))"
proof -
  obtain rest where r: "fallbackFor diagramType prompt = kindHeader diagramType @ rest"
    using fallbackFor_head by blast
  have "prefix (kindHeader diagramType) (cleanUp (kindHeader diagramType @ rest))"
    by (rule cleanUp_keeps_head) (simp_all add: kindHeader_def backtick_def isWhiteSpace_def)
  with r show ?thesis by simp
qed

lemma cleanUp_fallback_nonempty: "cleanUp (fallbackFor diagramType prompt) \<noteq> []"
  using cleanUp_fallback_head [of diagramType prompt]
  by (auto simp add: kindHeader_def split: if_splits)

lemma DIAGRAM_TYPES_nonempty: "diagramType \<in> set DIAGRAM_TYPES \<Longrightarrow> diagramType \<noteq> []"
  by (auto simp add: DIAGRAM_TYPES_def)









lemma prompt_flow_produces:
  assumes "trim (tp_prompt st) \<noteq> []" "tp_diagramType st \<in> set DIAGRAM_TYPES"
    and "auth_me b = Inr userId" "\<forall>d. db_create b d = None"
  shows "\<exists>d. persisted (snd (handleGenerate b st)) = [d]
           \<and> tp_generatedDiagram (fst (handleGenerate b st)) = Some d"
  using assms DIAGRAM_TYPES_nonempty [of "tp_diagramType st"]
  by (simp add: handleGenerate_def Let_def)

lemma prompt_flow_code:
  assumes "d \<in> set (persisted (snd (handleGenerate b st)))"
  shows "d_diagramCode d =
           cleanUp (case ai_generateText b of
                      Inr text \<Rightarrow> trim text
                    | Inl aiError \<Rightarrow> fallbackFor (tp_diagramType st) (tp_prompt st))"
  using assms
  by (auto simp add: handleGenerate_def Let_def failed_def split: if_splits sum.splits option.splits)

lemma prompt_flow_created_code:
  assumes "DbCreate d \<in> set (calls (snd (handleGenerate b st)))"
  shows "\<exists>code. d_diagramCode d = cleanUp code"
  using assms
  by (auto simp add: handleGenerate_def Let_def failed_def split: if_splits sum.splits option.splits)

text \<open>
  The dataset view and the PDF view hand the answer of the service to the store as it
  came: \<^verbatim>\<open>diagramCode: chartCode\<close> and \<^verbatim>\<open>diagramCode: mindMapCode\<close>.
\<close>

lemma dataset_flow_code:
  assumes "d \<in> set (persisted (snd (handleGenerateChart b stringify ds)))"
  shows "ai_generateText b = Inr (d_diagramCode d)"
  using assms
  by (auto simp add: handleGenerateChart_def Let_def failed_def
        split: if_splits sum.splits option.splits)

lemma pdf_flow_code:
  assumes "d \<in> set (persisted (snd (handleProcessPDF b ps)))"
  shows "ai_generateText b = Inr (d_diagramCode d)"
  using assms
  by (auto simp add: handleProcessPDF_def Let_def pdfFailed_def failed_def noEffects_def
        split: if_splits sum.splits option.splits)

text \<open>
  C2 (as amended). In the prompt view every record that \<^verbatim>\<open>handleGenerate\<close> hands to
  the store has a description without three backticks in a row: the clean-up runs on
  the answer of the service and on the fallback alike. A description that came from
  the fallback is not empty; one that came from the service is the cleaned-up answer.
  With a non-blank prompt, a type the select offers, a signed-in user and a store that
  accepts, one record is stored.
\<close>

theorem description_clean_in_prompt_flow:
  "(\<forall>d \<in> set (persisted (snd (handleGenerate b st))). \<not> includes_str (d_diagramCode d) fence)
   \<and> (\<forall>d. DbCreate d \<in> set (calls (snd (handleGenerate b st)))
          \<longrightarrow> \<not> includes_str (d_diagramCode d) fence)
   \<and> (\<forall>aiError. ai_generateText b = Inl aiError \<longrightarrow>
         (\<forall>d \<in> set (persisted (snd (handleGenerate b st))).
            d_diagramCode d = cleanUp (fallbackFor (tp_diagramType st) (tp_prompt st))
            \<and> d_diagramCode d \<noteq> []))
   \<and> (\<forall>text. ai_generateText b = Inr text \<longrightarrow>
         (\<forall>d \<in> set (persisted (snd (handleGenerate b st))).
            d_diagramCode d = cleanUp (trim text)))
   \<and> (trim (tp_prompt st) \<noteq> [] \<and> tp_diagramType st \<in> set DIAGRAM_TYPES
        \<and> (\<exists>userId. auth_me b = Inr userId) \<and> (\<forall>d. db_create b d = None) \<longrightarrow>
         (\<exists>d. persisted (snd (handleGenerate b st)) = [d]
            \<and> tp_generatedDiagram (fst (handleGenerate b st)) = Some d))"
proof -
  have 1: "\<forall>d \<in> set (persisted (snd (handleGenerate b st))). \<not> includes_str (d_diagramCode d) fence"
    using prompt_flow_code [of _ b st] cleanUp_fence_free by simp
  have 2: "\<forall>d. DbCreate d \<in> set (calls (snd (handleGenerate b st)))
          \<longrightarrow> \<not> includes_str (d_diagramCode d) fence"
    using prompt_flow_created_code [of _ b st] cleanUp_fence_free by metis
  have 3: "\<forall>aiError. ai_generateText b = Inl aiError \<longrightarrow>
         (\<forall>d \<in> set (persisted (snd (handleGenerate b st))).
            d_diagramCode d = cleanUp (fallbackFor (tp_diagramType st) (tp_prompt st))
            \<and> d_diagramCode d \<noteq> [])"
    using prompt_flow_code [of _ b st] cleanUp_fallback_nonempty by simp
  have 4: "\<forall>text. ai_generateText b = Inr text \<longrightarrow>
         (\<forall>d \<in> set (persisted (snd (handleGenerate b st))).
            d_diagramCode d = cleanUp (trim text))"
    using prompt_flow_code [of _ b st] by simp
  have 5: "trim (tp_prompt st) \<noteq> [] \<and> tp_diagramType st \<in> set DIAGRAM_TYPES
        \<and> (\<exists>userId. auth_me b = Inr userId) \<and> (\<forall>d. db_create b d = None) \<longrightarrow>
         (\<exists>d. persisted (snd (handleGenerate b st)) = [d]
            \<and> tp_generatedDiagram (fst (handleGenerate b st)) = Some d)"
    using prompt_flow_produces [of st b] by blast
  from 1 2 3 4 5 show ?thesis by blast
qed

theorem description_clean_counterexample:
  "map d_diagramCode
     (persisted (snd (handleGenerate (serviceDown\<lparr>ai_generateText := Inr emptyFencedAnswer\<rparr>)
                        examplePrompt))) = [[]]
   \<and> map d_diagramCode
       (persisted (snd (handleGenerateChart (serviceDown\<lparr>ai_generateText := Inr fencedAnswer\<rparr>)
                          stringifyStub exampleDataset))) = [fencedAnswer]
   \<and> includes_str fencedAnswer fence"
proof -
  have c: "cleanUp (trim emptyFencedAnswer) = []"
    by code_simp
  have p: "trim (tp_prompt examplePrompt) \<noteq> []"
    by (simp add: examplePrompt_def trim_def isWhiteSpace_def)
  have a: "map d_diagramCode
     (persisted (snd (handleGenerate (serviceDown\<lparr>ai_generateText := Inr emptyFencedAnswer\<rparr>)
                        examplePrompt))) = [[]]"
    using c p by (simp add: handleGenerate_def Let_def serviceDown_def examplePrompt_def)
  have b: "map d_diagramCode
       (persisted (snd (handleGenerateChart (serviceDown\<lparr>ai_generateText := Inr fencedAnswer\<rparr>)
                          stringifyStub exampleDataset))) = [fencedAnswer]"
    by (simp add: handleGenerateChart_def Let_def serviceDown_def exampleDataset_def
          exampleRows_def exampleColumns_def)
  have i: "includes_str fencedAnswer fence"
    by (simp add: includes_str_def fencedAnswer_def)
  from a b i show ?thesis by simp
qed

theorem description_clean_in_prompt_flow_witness:
  "\<exists>d. persisted (snd (handleGenerate (serviceDown\<lparr>ai_generateText := Inr fencedAnswer\<rparr>)
                        examplePrompt)) = [d]
      \<and> d_diagramCode d = ''pie title Sales''
      \<and> \<not> includes_str (d_diagramCode d) fence"
proof -
  let ?b = "serviceDown\<lparr>ai_generateText := Inr fencedAnswer\<rparr>"
  note t = description_clean_in_prompt_flow [of ?b examplePrompt]
  have "trim (tp_prompt examplePrompt) \<noteq> []
        \<and> tp_diagramType examplePrompt \<in> set DIAGRAM_TYPES
        \<and> (\<exists>userId. auth_me ?b = Inr userId) \<and> (\<forall>d. db_create ?b d = None)"
    by (simp add: examplePrompt_def serviceDown_def trim_def isWhiteSpace_def DIAGRAM_TYPES_def)
  with t obtain d where d: "persisted (snd (handleGenerate ?b examplePrompt)) = [d]"
    by blast
  have g: "ai_generateText ?b = Inr fencedAnswer" by simp
  from t [THEN conjunct1] d have 1: "\<not> includes_str (d_diagramCode d) fence" by simp
  from t [THEN conjunct2, THEN conjunct2, THEN conjunct2, THEN conjunct1] g d
  have 2: "d_diagramCode d = cleanUp (trim fencedAnswer)" by simp
  have "cleanUp (trim fencedAnswer) = ''pie title Sales''" by code_simp
  with d 1 2 show ?thesis by simp
qed

end
